theory Spec2Isabelle
  imports Main "HOL-Library.Word"
begin

unbundle bit_operations_syntax

section \<open>Values shared by the modules\<close>

text \<open>
  Python \<open>bytes\<close> are lists of 8-bit words, \<open>str\<close> is \<open>string\<close>, Python integers are
  \<open>int\<close>, and \<open>len\<close> is \<open>length\<close>.

  An exception is a value. \<open>ValueError\<close> and \<open>FileNotFoundError\<close> are the two classes the
  program raises itself, each with its message. \<open>OverflowError\<close> and \<open>OperationalError\<close>
  are raised by the \<open>sqlite3\<close> module. \<open>OSError t m\<close> is any other exception of the
  operating system, with its class name \<open>t\<close> (such as \<open>PermissionError\<close>) and its
  message \<open>m\<close>. \<open>CryptographyError t m\<close> is an exception raised inside the
  \<open>cryptography\<close> package: its class name \<open>t\<close> and its message \<open>m\<close> (for a failed tag
  check the class is \<open>InvalidTag\<close> and the message is empty). \<open>ObserverError t m\<close> is an
  exception raised by an observer's callback.
\<close>

type_synonym byte = "8 word"
type_synonym bytes = "byte list"

datatype exn =
    ValueError string
  | FileNotFoundError string
  | OverflowError string
  | OperationalError string
  | OSError string string
  | CryptographyError string string
  | ObserverError string string

text \<open>\<open>str(e)\<close> and \<open>type(e).__name__\<close>.\<close>

fun exn_str :: "exn \<Rightarrow> string" where
  "exn_str (ValueError m) = m"
| "exn_str (FileNotFoundError m) = m"
| "exn_str (OverflowError m) = m"
| "exn_str (OperationalError m) = m"
| "exn_str (OSError t m) = m"
| "exn_str (CryptographyError t m) = m"
| "exn_str (ObserverError t m) = m"

fun exn_type_name :: "exn \<Rightarrow> string" where
  "exn_type_name (ValueError m) = ''ValueError''"
| "exn_type_name (FileNotFoundError m) = ''FileNotFoundError''"
| "exn_type_name (OverflowError m) = ''OverflowError''"
| "exn_type_name (OperationalError m) = ''OperationalError''"
| "exn_type_name (OSError t m) = t"
| "exn_type_name (CryptographyError t m) = t"
| "exn_type_name (ObserverError t m) = t"

text \<open>\<open>str(n)\<close> for a length, as the f-strings of the program print it.\<close>

fun str_nat :: "nat \<Rightarrow> string" where
  "str_nat n =
     (if n < 10 then [''0123456789'' ! n]
      else str_nat (n div 10) @ [''0123456789'' ! (n mod 10)])"

declare str_nat.simps [simp del]

section \<open>checksum.py\<close>

subsection \<open>\<open>hashlib.sha256\<close>\<close>

text \<open>
  \<open>hashlib.sha256\<close> is the standard library's SHA-256. It is written out here after
  FIPS 180-4: padding to a multiple of 64 bytes, sixteen big-endian words per block, the
  message schedule of 64 words, 64 rounds on eight working variables, and the digest as
  the eight state words in big-endian order. The 64 round constants are listed four to
  a row.
\<close>

type_synonym u32 = "32 word"

definition sha256_K :: "u32 list" where
  "sha256_K = concat
   [[0x428a2f98, 0x71374491, 0xb5c0fbcf, 0xe9b5dba5],
    [0x3956c25b, 0x59f111f1, 0x923f82a4, 0xab1c5ed5],
    [0xd807aa98, 0x12835b01, 0x243185be, 0x550c7dc3],
    [0x72be5d74, 0x80deb1fe, 0x9bdc06a7, 0xc19bf174],
    [0xe49b69c1, 0xefbe4786, 0x0fc19dc6, 0x240ca1cc],
    [0x2de92c6f, 0x4a7484aa, 0x5cb0a9dc, 0x76f988da],
    [0x983e5152, 0xa831c66d, 0xb00327c8, 0xbf597fc7],
    [0xc6e00bf3, 0xd5a79147, 0x06ca6351, 0x14292967],
    [0x27b70a85, 0x2e1b2138, 0x4d2c6dfc, 0x53380d13],
    [0x650a7354, 0x766a0abb, 0x81c2c92e, 0x92722c85],
    [0xa2bfe8a1, 0xa81a664b, 0xc24b8b70, 0xc76c51a3],
    [0xd192e819, 0xd6990624, 0xf40e3585, 0x106aa070],
    [0x19a4c116, 0x1e376c08, 0x2748774c, 0x34b0bcb5],
    [0x391c0cb3, 0x4ed8aa4a, 0x5b9cca4f, 0x682e6ff3],
    [0x748f82ee, 0x78a5636f, 0x84c87814, 0x8cc70208],
    [0x90befffa, 0xa4506ceb, 0xbef9a3f7, 0xc67178f2]]"

type_synonym sha256_state = "u32 \<times> u32 \<times> u32 \<times> u32 \<times> u32 \<times> u32 \<times> u32 \<times> u32"

definition sha256_init :: sha256_state where
  "sha256_init =
   (0x6a09e667, 0xbb67ae85, 0x3c6ef372, 0xa54ff53a, 0x510e527f, 0x9b05688c, 0x1f83d9ab, 0x5be0cd19)"

definition sha256_pad :: "bytes \<Rightarrow> bytes" where
  "sha256_pad m =
     (let l = length m;
          bits = (word_of_nat (8 * l) :: 64 word)
      in m @ [0x80] @ replicate ((119 - l mod 64) mod 64) 0 @
         map (\<lambda>i. ucast (drop_bit (8 * (7 - i)) bits)) [0..<8])"

definition be32 :: "bytes \<Rightarrow> u32" where
  "be32 bs = fold (\<lambda>b w. push_bit 8 w OR ucast b) bs 0"

definition sha256_blocks :: "bytes \<Rightarrow> u32 list list" where
  "sha256_blocks p =
     map (\<lambda>i. map (\<lambda>j. be32 (take 4 (drop (64 * i + 4 * j) p))) [0..<16])
       [0..<length p div 64]"

definition ssig0 :: "u32 \<Rightarrow> u32" where
  "ssig0 x = word_rotr 7 x XOR word_rotr 18 x XOR drop_bit 3 x"

definition ssig1 :: "u32 \<Rightarrow> u32" where
  "ssig1 x = word_rotr 17 x XOR word_rotr 19 x XOR drop_bit 10 x"

definition bsig0 :: "u32 \<Rightarrow> u32" where
  "bsig0 x = word_rotr 2 x XOR word_rotr 13 x XOR word_rotr 22 x"

definition bsig1 :: "u32 \<Rightarrow> u32" where
  "bsig1 x = word_rotr 6 x XOR word_rotr 11 x XOR word_rotr 25 x"

definition ch :: "u32 \<Rightarrow> u32 \<Rightarrow> u32 \<Rightarrow> u32" where
  "ch x y z = (x AND y) XOR (NOT x AND z)"

definition maj :: "u32 \<Rightarrow> u32 \<Rightarrow> u32 \<Rightarrow> u32" where
  "maj x y z = (x AND y) XOR (x AND z) XOR (y AND z)"

definition sha256_schedule :: "u32 list \<Rightarrow> u32 list" where
  "sha256_schedule blk =
     fold (\<lambda>t w. w @ [ssig1 (w ! (t - 2)) + w ! (t - 7) + ssig0 (w ! (t - 15)) + w ! (t - 16)])
       [16..<64] blk"

definition sha256_round :: "u32 list \<Rightarrow> nat \<Rightarrow> sha256_state \<Rightarrow> sha256_state" where
  "sha256_round w t s =
     (case s of (a, b, c, d, e, f, g, h) \<Rightarrow>
        let t1 = h + bsig1 e + ch e f g + sha256_K ! t + w ! t;
            t2 = bsig0 a + maj a b c
        in (t1 + t2, a, b, c, d + t1, e, f, g))"

definition sha256_compress :: "u32 list \<Rightarrow> sha256_state \<Rightarrow> sha256_state" where
  "sha256_compress blk s =
     (case s of (a, b, c, d, e, f, g, h) \<Rightarrow>
        case fold (sha256_round (sha256_schedule blk)) [0..<64] s of
          (a', b', c', d', e', f', g', h') \<Rightarrow>
            (a + a', b + b', c + c', d + d', e + e', f + f', g + g', h + h'))"

definition bytes_of_u32 :: "u32 \<Rightarrow> bytes" where
  "bytes_of_u32 w = [ucast (drop_bit 24 w), ucast (drop_bit 16 w), ucast (drop_bit 8 w), ucast w]"

definition sha256_digest :: "bytes \<Rightarrow> bytes" where
  "sha256_digest m =
     (case fold sha256_compress (sha256_blocks (sha256_pad m)) sha256_init of
        (a, b, c, d, e, f, g, h) \<Rightarrow> concat (map bytes_of_u32 [a, b, c, d, e, f, g, h]))"

text \<open>\<open>hexdigest()\<close>: two lower-case hexadecimal digits per byte of the digest.\<close>

definition hex_digit :: "nat \<Rightarrow> char" where
  "hex_digit n = ''0123456789abcdef'' ! (n mod 16)"

definition hexdigest :: "bytes \<Rightarrow> string" where
  "hexdigest bs = concat (map (\<lambda>b. [hex_digit (unat b div 16), hex_digit (unat b)]) bs)"

subsection \<open>\<open>ChecksumManager\<close>\<close>

definition calculate_checksum :: "bytes \<Rightarrow> string" where
  "calculate_checksum data = hexdigest (sha256_digest data)"

definition verify_checksum :: "bytes \<Rightarrow> string \<Rightarrow> bool" where
  "verify_checksum data expected_checksum =
     (let calculated_checksum = calculate_checksum data
      in calculated_checksum = expected_checksum)"

section \<open>encryption.py\<close>

subsection \<open>The collaborators: \<open>os.urandom\<close> and \<open>AESGCM\<close>\<close>

text \<open>
  \<open>os.urandom(n)\<close> returns the next \<open>n\<close> bytes of the operating system's entropy. The
  source of entropy is the sequence of bytes it will deliver; a call takes the first
  \<open>n\<close> and leaves the rest.
\<close>

type_synonym rng = "nat \<Rightarrow> byte"

definition os_urandom :: "nat \<Rightarrow> rng \<Rightarrow> bytes \<times> rng" where
  "os_urandom n r = (map r [0..<n], \<lambda>i. r (i + n))"

text \<open>
  \<open>AESGCM\<close> of the \<open>cryptography\<close> package is not part of the program; the strategy is
  written over it. \<open>aesgcm_encrypt L key nonce data\<close> is
  \<open>AESGCM(key).encrypt(nonce, data, None)\<close> and \<open>aesgcm_decrypt L key nonce ciphertext\<close>
  is \<open>AESGCM(key).decrypt(nonce, ciphertext, None)\<close>: either the bytes returned, or the
  class name and message of the exception raised.
\<close>

record aesgcm =
  aesgcm_encrypt :: "bytes \<Rightarrow> bytes \<Rightarrow> bytes \<Rightarrow> (string \<times> string) + bytes"
  aesgcm_decrypt :: "bytes \<Rightarrow> bytes \<Rightarrow> bytes \<Rightarrow> (string \<times> string) + bytes"

subsection \<open>\<open>AES256GCMStrategy\<close>\<close>

definition AES256GCMStrategy_encrypt ::
  "aesgcm \<Rightarrow> bytes \<Rightarrow> bytes \<Rightarrow> rng \<Rightarrow> (exn + bytes) \<times> rng" where
  "AES256GCMStrategy_encrypt L data key r =
     (case os_urandom 12 r of (nonce, r') \<Rightarrow>
        (case aesgcm_encrypt L key nonce data of
           Inl (t, m) \<Rightarrow> (Inl (CryptographyError t m), r')
         | Inr ciphertext \<Rightarrow> (Inr (nonce @ ciphertext), r')))"

definition AES256GCMStrategy_decrypt :: "aesgcm \<Rightarrow> bytes \<Rightarrow> bytes \<Rightarrow> exn + bytes" where
  "AES256GCMStrategy_decrypt L encrypted_data key =
     (let nonce = take 12 encrypted_data;
          ciphertext = drop 12 encrypted_data
      in case aesgcm_decrypt L key nonce ciphertext of
           Inl (t, m) \<Rightarrow> Inl (CryptographyError t m)
         | Inr data \<Rightarrow> Inr data)"

subsection \<open>\<open>EncryptionManager\<close>\<close>

text \<open>
  The manager holds the key (\<open>None\<close> until one is set). Its strategy is the one the
  factory builds for the default name, \<open>AES256GCMStrategy\<close>.
\<close>

record encryption_manager =
  manager_key :: "bytes option"

definition generate_key :: "encryption_manager \<Rightarrow> rng \<Rightarrow> (bytes \<times> encryption_manager) \<times> rng" where
  "generate_key em r =
     (case os_urandom 32 r of (k, r') \<Rightarrow> ((k, em\<lparr>manager_key := Some k\<rparr>), r'))"

definition set_key :: "encryption_manager \<Rightarrow> bytes \<Rightarrow> exn + encryption_manager" where
  "set_key em k =
     (if length k \<noteq> 32 then Inl (ValueError ''key must be 32 bytes'')
      else Inr (em\<lparr>manager_key := Some k\<rparr>))"

definition get_key :: "encryption_manager \<Rightarrow> bytes option" where
  "get_key em = manager_key em"

definition encrypt_data ::
  "aesgcm \<Rightarrow> encryption_manager \<Rightarrow> bytes \<Rightarrow> rng \<Rightarrow> (exn + bytes) \<times> rng" where
  "encrypt_data L em data r =
     (case manager_key em of
        None \<Rightarrow> (Inl (ValueError ''need to set key first''), r)
      | Some k \<Rightarrow> AES256GCMStrategy_encrypt L data k r)"

definition decrypt_data :: "aesgcm \<Rightarrow> encryption_manager \<Rightarrow> bytes \<Rightarrow> exn + bytes" where
  "decrypt_data L em encrypted_data =
     (case manager_key em of
        None \<Rightarrow> Inl (ValueError ''need to set key first'')
      | Some k \<Rightarrow> AES256GCMStrategy_decrypt L encrypted_data k)"

section \<open>user_manager.py\<close>

text \<open>
  The two classes of principal, each with \<open>user_id\<close>, \<open>username\<close> and \<open>role\<close>. The
  class decides the permissions, not the role string.
\<close>

datatype user = User int string string | AdminUser int string string

fun user_id :: "user \<Rightarrow> int" where
  "user_id (User uid n r) = uid"
| "user_id (AdminUser uid n r) = uid"

fun username :: "user \<Rightarrow> string" where
  "username (User uid n r) = n"
| "username (AdminUser uid n r) = n"

fun role :: "user \<Rightarrow> string" where
  "role (User uid n r) = r"
| "role (AdminUser uid n r) = r"

fun can_view_artefact :: "user \<Rightarrow> int \<Rightarrow> bool" where
  "can_view_artefact (User uid n r) artefact_owner_id = True"
| "can_view_artefact (AdminUser uid n r) artefact_owner_id = True"

fun can_modify_artefact :: "user \<Rightarrow> int \<Rightarrow> bool" where
  "can_modify_artefact (User uid n r) artefact_owner_id = (uid = artefact_owner_id)"
| "can_modify_artefact (AdminUser uid n r) artefact_owner_id = True"

fun can_delete_artefact :: "user \<Rightarrow> int \<Rightarrow> bool" where
  "can_delete_artefact (User uid n r) artefact_owner_id = (uid = artefact_owner_id)"
| "can_delete_artefact (AdminUser uid n r) artefact_owner_id = True"

section \<open>The state of the program\<close>

text \<open>
  One record holds what the operations read and change. \<open>db\<close>, \<open>encryption\<close> and
  \<open>observers\<close> are the fields of \<open>ArtefactManager\<close>. \<open>files\<close> is the file system (the
  contents of every path that exists) and \<open>unwritable\<close> gives, for every path the
  operating system refuses to open for writing, the exception \<open>open\<close> raises. \<open>stdout\<close>
  is the texts printed so far (one entry per call of \<open>print\<close>), \<open>clock\<close> the successive
  readings of \<open>datetime.now().isoformat()\<close> and \<open>entropy\<close> the bytes \<open>os.urandom\<close> will
  deliver. \<open>notifications\<close> records every call of an observer's
  \<open>on_artefact_modified\<close>, in the order of the calls: the observer's name, the artefact
  identifier and the timestamp it was given.

  A row of the table \<open>artefacts\<close> has the columns of the \<open>CREATE TABLE\<close> statement. The
  database keeps the rows in insertion order and the largest identifier
  \<open>AUTOINCREMENT\<close> has given out.
\<close>

record artefact =
  artefact_id :: int
  owner_id :: int
  artefact_name :: string
  artefact_type :: string
  file_path :: string
  encrypted_data :: bytes
  checksum :: string
  created_at :: string
  modified_at :: "string option"

record database =
  artefacts :: "artefact list"
  sqlite_sequence :: int

text \<open>
  An observer is an object with a method \<open>on_artefact_modified\<close>. The two classes of
  the program, \<open>ArtefactObserver\<close> and \<open>TimestampObserver\<close>, do nothing in it; a subclass
  may raise. \<open>observer_raises\<close> is the exception the method ends with, if any.
\<close>

record observer =
  observer_name :: string
  observer_raises :: "int \<Rightarrow> string \<Rightarrow> exn option"

definition ArtefactObserver :: observer where
  "ArtefactObserver = \<lparr>observer_name = ''ArtefactObserver'', observer_raises = (\<lambda>i t. None)\<rparr>"

definition TimestampObserver :: observer where
  "TimestampObserver = \<lparr>observer_name = ''TimestampObserver'', observer_raises = (\<lambda>i t. None)\<rparr>"

record state =
  db :: database
  encryption :: encryption_manager
  observers :: "observer list"
  files :: "string \<rightharpoonup> bytes"
  unwritable :: "string \<rightharpoonup> exn"
  stdout :: "string list"
  clock :: "nat \<Rightarrow> string"
  entropy :: rng
  notifications :: "(string \<times> int \<times> string) list"

definition py_print :: "string \<Rightarrow> state \<Rightarrow> state" where
  "py_print line s = s\<lparr>stdout := stdout s @ [line]\<rparr>"

definition now_isoformat :: "state \<Rightarrow> string \<times> state" where
  "now_isoformat s = (clock s 0, s\<lparr>clock := (\<lambda>i. clock s (Suc i))\<rparr>)"

text \<open>
  \<open>open(path, 'rb').read()\<close> and \<open>open(path, 'wb').write(data)\<close>. Opening for writing
  raises on a path the operating system refuses and otherwise replaces the contents.
\<close>

definition read_file :: "string \<Rightarrow> state \<Rightarrow> exn + bytes" where
  "read_file path s =
     (case files s path of
        None \<Rightarrow>
          Inl (FileNotFoundError
                (''[Errno 2] No such file or directory: '' @ [CHR 0x27] @ path @ [CHR 0x27]))
      | Some data \<Rightarrow> Inr data)"

definition write_file :: "string \<Rightarrow> bytes \<Rightarrow> state \<Rightarrow> (exn + unit) \<times> state" where
  "write_file path data s =
     (case unwritable s path of
        Some e \<Rightarrow> (Inl e, s)
      | None \<Rightarrow> (Inr (), s\<lparr>files := (files s)(path \<mapsto> data)\<rparr>))"

section \<open>database.py\<close>

text \<open>
  The four methods of \<open>DatabaseManager\<close> on the table \<open>artefacts\<close> that
  \<open>ArtefactManager\<close> calls; their names carry the prefix \<open>db_\<close>, as the manager's methods
  have the same names.

  An integer bound to a parameter of a statement must fit SQLite's signed 64-bit
  \<open>INTEGER\<close>: for any other, \<open>cursor.execute\<close> raises \<open>OverflowError\<close>. An \<open>INSERT\<close> into
  the \<open>AUTOINCREMENT\<close> table takes the identifier after the largest one there has been,
  and fails with \<open>OperationalError\<close> when that was the largest \<open>INTEGER\<close>.
\<close>

definition sqlite_integer :: "int \<Rightarrow> bool" where
  "sqlite_integer i \<longleftrightarrow> - (2 ^ 63) \<le> i \<and> i < 2 ^ 63"

definition sqlite_overflow :: exn where
  "sqlite_overflow = OverflowError ''Python int too large to convert to SQLite INTEGER''"

definition db_create_artefact ::
  "int \<Rightarrow> string \<Rightarrow> string \<Rightarrow> string \<Rightarrow> bytes \<Rightarrow> string \<Rightarrow> state \<Rightarrow> (exn + int) \<times> state" where
  "db_create_artefact oid name atype path enc csum s =
     (case now_isoformat s of (created, s1) \<Rightarrow>
        if \<not> sqlite_integer oid then (Inl sqlite_overflow, s1)
        else
          let largest = fold max (map artefact_id (artefacts (db s1))) (sqlite_sequence (db s1))
          in if \<not> sqlite_integer (largest + 1)
             then (Inl (OperationalError ''database or disk is full''), s1)
             else
               let new_id = largest + 1;
                   row = \<lparr>artefact_id = new_id, owner_id = oid, artefact_name = name,
                          artefact_type = atype, file_path = path, encrypted_data = enc,
                          checksum = csum, created_at = created, modified_at = None\<rparr>
               in (Inr new_id,
                   s1\<lparr>db := (db s1)\<lparr>artefacts := artefacts (db s1) @ [row],
                                      sqlite_sequence := new_id\<rparr>\<rparr>))"

definition db_get_artefact :: "database \<Rightarrow> int \<Rightarrow> exn + artefact option" where
  "db_get_artefact d aid =
     (if \<not> sqlite_integer aid then Inl sqlite_overflow
      else Inr (find (\<lambda>r. artefact_id r = aid) (artefacts d)))"

definition db_update_artefact ::
  "int \<Rightarrow> bytes \<Rightarrow> string \<Rightarrow> state \<Rightarrow> (exn + bool) \<times> state" where
  "db_update_artefact aid enc csum s =
     (case now_isoformat s of (modified, s1) \<Rightarrow>
        if \<not> sqlite_integer aid then (Inl sqlite_overflow, s1)
        else
          let rows = artefacts (db s1);
              rowcount = length (filter (\<lambda>r. artefact_id r = aid) rows);
              rows' = map (\<lambda>r. if artefact_id r = aid
                                 then r\<lparr>encrypted_data := enc, checksum := csum,
                                        modified_at := Some modified\<rparr>
                                 else r) rows
          in (Inr (rowcount > 0), s1\<lparr>db := (db s1)\<lparr>artefacts := rows'\<rparr>\<rparr>))"

definition db_delete_artefact :: "int \<Rightarrow> state \<Rightarrow> (exn + bool) \<times> state" where
  "db_delete_artefact aid s =
     (if \<not> sqlite_integer aid then (Inl sqlite_overflow, s)
      else
        let rows = artefacts (db s);
            rowcount = length (filter (\<lambda>r. artefact_id r = aid) rows);
            rows' = filter (\<lambda>r. artefact_id r \<noteq> aid) rows
        in (Inr (rowcount > 0), s\<lparr>db := (db s)\<lparr>artefacts := rows'\<rparr>\<rparr>))"

section \<open>artefact_manager.py\<close>

definition add_observer :: "observer \<Rightarrow> state \<Rightarrow> state" where
  "add_observer obs s = s\<lparr>observers := observers s @ [obs]\<rparr>"

definition on_artefact_modified :: "observer \<Rightarrow> int \<Rightarrow> string \<Rightarrow> state \<Rightarrow> (exn + unit) \<times> state" where
  "on_artefact_modified obs aid timestamp s =
     (let s' = s\<lparr>notifications := notifications s @ [(observer_name obs, aid, timestamp)]\<rparr>
      in case observer_raises obs aid timestamp of
           None \<Rightarrow> (Inr (), s')
         | Some e \<Rightarrow> (Inl e, s'))"

text \<open>\<open>_notify_observers\<close>: the loop over \<open>self.observers\<close>; an exception ends it.\<close>

fun notify_loop :: "observer list \<Rightarrow> int \<Rightarrow> string \<Rightarrow> state \<Rightarrow> (exn + unit) \<times> state" where
  "notify_loop [] aid timestamp s = (Inr (), s)"
| "notify_loop (obs # rest) aid timestamp s =
     (case on_artefact_modified obs aid timestamp s of
        (Inl e, s') \<Rightarrow> (Inl e, s')
      | (Inr u, s') \<Rightarrow> notify_loop rest aid timestamp s')"

definition notify_observers :: "int \<Rightarrow> string \<Rightarrow> state \<Rightarrow> (exn + unit) \<times> state" where
  "notify_observers aid timestamp s = notify_loop (observers s) aid timestamp s"

definition bar :: string where
  "bar = replicate 60 (CHR ''='')"

text \<open>
  \<open>create_artefact\<close>: \<open>create_artefact_try\<close> is the body of its \<open>try\<close> statement, which
  either returns the new identifier or raises; the handler prints and returns \<open>None\<close>.
  The two checks before the \<open>try\<close> raise to the caller.
\<close>

definition create_artefact_try ::
  "aesgcm \<Rightarrow> user \<Rightarrow> string \<Rightarrow> string \<Rightarrow> string \<Rightarrow> state \<Rightarrow> (exn + int) \<times> state" where
  "create_artefact_try L owner path name atype s =
     (case read_file path s of
        Inl e \<Rightarrow> (Inl e, s)
      | Inr file_data \<Rightarrow>
          let csum = calculate_checksum file_data
          in (case encrypt_data L (encryption s) file_data (entropy s) of
               (Inl e, r') \<Rightarrow> (Inl e, s\<lparr>entropy := r'\<rparr>)
             | (Inr enc, r') \<Rightarrow>
                 let s1 = s\<lparr>entropy := r'\<rparr>;
                     s2 = py_print (CHR 0x0A # bar) s1;
                     s3 = py_print ''FILE UPLOAD VERIFICATION'' s2;
                     s4 = py_print bar s3;
                     s5 = py_print (''Original file size:   '' @ str_nat (length file_data) @ '' bytes'') s4;
                     s6 = py_print (''Encrypted data size:  '' @ str_nat (length enc) @ '' bytes'') s5;
                     s7 = py_print (''Checksum calculated:  '' @ take 32 csum @ ''...'') s6;
                     s8 = py_print ''File encrypted and checksum stored'' s7;
                     s9 = py_print bar s8
                 in db_create_artefact (user_id owner) name atype path enc csum s9))"

definition create_artefact ::
  "aesgcm \<Rightarrow> user \<Rightarrow> string \<Rightarrow> string \<Rightarrow> string \<Rightarrow> state \<Rightarrow> (exn + int option) \<times> state" where
  "create_artefact L owner path name atype s =
     (if atype \<notin> set [''lyrics'', ''score'', ''audio'']
      then (Inl (ValueError (''Artefact type must be 'lyrics', 'score', or 'audio'' @ [CHR 0x27])), s)
      else if files s path = None
      then (Inl (FileNotFoundError (''File not found: '' @ path)), s)
      else case create_artefact_try L owner path name atype s of
             (Inr aid, s') \<Rightarrow> (Inr (Some aid), s')
           | (Inl e, s') \<Rightarrow> (Inr None, py_print (''Error creating artefact: '' @ exn_str e) s'))"

text \<open>
  \<open>read_artefact\<close> returns the identifier, name, type, creation time, modification time
  and checksum of the row. In this and the three methods after it the call of
  \<open>get_artefact\<close> stands before any \<open>try\<close>: what it raises, the method raises.
\<close>

definition read_artefact ::
  "int \<Rightarrow> user \<Rightarrow> state \<Rightarrow>
   exn + (int \<times> string \<times> string \<times> string \<times> string option \<times> string) option" where
  "read_artefact aid u s =
     (case db_get_artefact (db s) aid of
        Inl e \<Rightarrow> Inl e
      | Inr None \<Rightarrow> Inr None
      | Inr (Some a) \<Rightarrow>
          if \<not> can_view_artefact u (owner_id a) then Inr None
          else Inr (Some (artefact_id a, artefact_name a, artefact_type a, created_at a,
                          modified_at a, checksum a)))"

text \<open>
  \<open>get_artefact_data\<close>: \<open>get_artefact_data_try\<close> is the body of its \<open>try\<close> statement.
  \<open>output_path\<close> is \<open>None\<close> or a string; the file is written when it is a non-empty
  string.
\<close>

definition get_artefact_data_try ::
  "aesgcm \<Rightarrow> artefact \<Rightarrow> string option \<Rightarrow> state \<Rightarrow> (exn + bytes option) \<times> state" where
  "get_artefact_data_try L a output_path s =
     (case decrypt_data L (encryption s) (encrypted_data a) of
        Inl e \<Rightarrow> (Inl e, s)
      | Inr decrypted_data \<Rightarrow>
          let calculated_checksum = calculate_checksum decrypted_data;
              s1 = py_print (CHR 0x0A # bar) s;
              s2 = py_print ''VERIFICATION: Encryption/Decryption Check'' s1;
              s3 = py_print bar s2;
              s4 = py_print (''Encrypted data size: '' @ str_nat (length (encrypted_data a)) @ '' bytes'') s3;
              s5 = py_print (''Decrypted data size: '' @ str_nat (length decrypted_data) @ '' bytes'') s4;
              s6 = py_print (''Stored checksum:     '' @ take 32 (checksum a) @ ''...'') s5;
              s7 = py_print (''Calculated checksum: '' @ take 32 calculated_checksum @ ''...'') s6
          in if calculated_checksum \<noteq> checksum a
             then (Inr None,
                   py_print bar
                     (py_print ''WARNING: Checksum mismatch! Data may have been tampered with.'' s7))
             else
               let s8 = py_print ''Checksum verification: PASSED'' s7;
                   s9 = py_print ''Original file = Decrypted file (verified by checksum)'' s8;
                   s10 = py_print bar s9
               in (case output_path of
                     None \<Rightarrow> (Inr (Some decrypted_data), s10)
                   | Some p \<Rightarrow>
                       if p = [] then (Inr (Some decrypted_data), s10)
                       else (case write_file p decrypted_data s10 of
                               (Inl e, s11) \<Rightarrow> (Inl e, s11)
                             | (Inr w, s11) \<Rightarrow> (Inr (Some decrypted_data), s11))))"

definition get_artefact_data ::
  "aesgcm \<Rightarrow> int \<Rightarrow> user \<Rightarrow> string option \<Rightarrow> state \<Rightarrow> (exn + bytes option) \<times> state" where
  "get_artefact_data L aid u output_path s =
     (case db_get_artefact (db s) aid of
        Inl e \<Rightarrow> (Inl e, s)
      | Inr None \<Rightarrow> (Inr None, s)
      | Inr (Some a) \<Rightarrow>
          if \<not> can_view_artefact u (owner_id a) then (Inr None, s)
          else (case get_artefact_data_try L a output_path s of
                  (Inr res, s') \<Rightarrow> (Inr res, s')
                | (Inl e, s') \<Rightarrow>
                    let error_msg = (if exn_str e \<noteq> [] then exn_str e else exn_type_name e)
                    in (Inr None, py_print (''Error retrieving artefact: '' @ error_msg) s')))"

text \<open>\<open>update_artefact\<close>, with \<open>update_artefact_try\<close> the body of its \<open>try\<close> statement.\<close>

definition update_artefact_try ::
  "aesgcm \<Rightarrow> int \<Rightarrow> string \<Rightarrow> state \<Rightarrow> (exn + bool) \<times> state" where
  "update_artefact_try L aid new_file_path s =
     (case read_file new_file_path s of
        Inl e \<Rightarrow> (Inl e, s)
      | Inr file_data \<Rightarrow>
          let csum = calculate_checksum file_data
          in (case encrypt_data L (encryption s) file_data (entropy s) of
               (Inl e, r') \<Rightarrow> (Inl e, s\<lparr>entropy := r'\<rparr>)
             | (Inr enc, r') \<Rightarrow>
                 (case db_update_artefact aid enc csum (s\<lparr>entropy := r'\<rparr>) of
                    (Inl e, s1) \<Rightarrow> (Inl e, s1)
                  | (Inr success, s1) \<Rightarrow>
                      if success
                      then (case now_isoformat s1 of
                              (timestamp, s2) \<Rightarrow>
                                (case notify_observers aid timestamp s2 of
                                   (Inl e, s3) \<Rightarrow> (Inl e, s3)
                                 | (Inr u, s3) \<Rightarrow> (Inr success, s3)))
                      else (Inr success, s1))))"

definition update_artefact ::
  "aesgcm \<Rightarrow> int \<Rightarrow> string \<Rightarrow> user \<Rightarrow> state \<Rightarrow> (exn + bool) \<times> state" where
  "update_artefact L aid new_file_path u s =
     (case db_get_artefact (db s) aid of
        Inl e \<Rightarrow> (Inl e, s)
      | Inr None \<Rightarrow> (Inr False, s)
      | Inr (Some a) \<Rightarrow>
          if \<not> can_modify_artefact u (owner_id a)
          then (Inr False,
                py_print ''Permission denied: You can only modify your own artefacts.'' s)
          else if files s new_file_path = None
          then (Inl (FileNotFoundError (''File not found: '' @ new_file_path)), s)
          else (case update_artefact_try L aid new_file_path s of
                  (Inr success, s') \<Rightarrow> (Inr success, s')
                | (Inl e, s') \<Rightarrow>
                    (Inr False, py_print (''Error updating artefact: '' @ exn_str e) s')))"

definition delete_artefact :: "int \<Rightarrow> user \<Rightarrow> state \<Rightarrow> (exn + bool) \<times> state" where
  "delete_artefact aid u s =
     (case db_get_artefact (db s) aid of
        Inl e \<Rightarrow> (Inl e, s)
      | Inr None \<Rightarrow> (Inr False, s)
      | Inr (Some a) \<Rightarrow>
          if \<not> can_delete_artefact u (owner_id a)
          then (Inr False,
                py_print ''Permission denied: You can only delete your own artefacts.'' s)
          else db_delete_artefact aid s)"

section \<open>A stand-in for \<open>AESGCM\<close> and a sample state\<close>

text \<open>
  \<open>demo_aesgcm\<close> has the interface of \<open>AESGCM\<close>, not its strength: it masks every byte
  with one byte computed from the key and the nonce and appends a tag of 16 bytes;
  decryption raises \<open>InvalidTag\<close> (with an empty message) when the tag does not match.
  It is the package the statements below are run with on concrete bytes.

  \<open>demo_state\<close> is a manager with a 32-byte key and one registered
  \<open>TimestampObserver\<close>. Its table holds two artefacts of user 1. The payload of
  \<open>demo_song\<close> is what \<open>demo_aesgcm\<close> makes of the bytes \<open>hi\<close> under \<open>demo_key\<close> and the
  nonce \<open>0, ..., 11\<close>, and its stored checksum is not the digest of \<open>hi\<close>. The payload
  of \<open>demo_score\<close> is the same with one byte of the ciphertext changed.
  \<open>failing_observer\<close> is an observer whose callback raises.
\<close>

definition demo_pad :: "bytes \<Rightarrow> bytes \<Rightarrow> byte" where
  "demo_pad key nonce = sum_list key + sum_list nonce"

definition demo_tag :: "bytes \<Rightarrow> bytes \<Rightarrow> bytes \<Rightarrow> bytes" where
  "demo_tag key nonce data = replicate 16 (sum_list data + demo_pad key nonce)"

definition demo_aesgcm :: aesgcm where
  "demo_aesgcm =
     \<lparr>aesgcm_encrypt = (\<lambda>key nonce data.
        Inr (map (\<lambda>b. b XOR demo_pad key nonce) data @ demo_tag key nonce data)),
      aesgcm_decrypt = (\<lambda>key nonce ct.
        if length ct < 16 then Inl (''InvalidTag'', [])
        else let data = map (\<lambda>b. b XOR demo_pad key nonce) (take (length ct - 16) ct)
             in if drop (length ct - 16) ct = demo_tag key nonce data then Inr data
                else Inl (''InvalidTag'', []))\<rparr>"

definition demo_key :: bytes where
  "demo_key = replicate 32 1"

definition demo_song :: artefact where
  "demo_song =
     \<lparr>artefact_id = 1, owner_id = 1, artefact_name = ''Song'', artefact_type = ''lyrics'',
      file_path = ''song.txt'',
      encrypted_data = [0, 1, 2, 3, 4, 5, 6, 7, 8, 9, 10, 11] @ [10, 11] @ replicate 16 51,
      checksum = ''stale'', created_at = ''2025-01-01T09:00:00'', modified_at = None\<rparr>"

definition demo_score :: artefact where
  "demo_score =
     \<lparr>artefact_id = 2, owner_id = 1, artefact_name = ''Score'', artefact_type = ''score'',
      file_path = ''score.txt'',
      encrypted_data = [0, 1, 2, 3, 4, 5, 6, 7, 8, 9, 10, 11] @ [11, 11] @ replicate 16 51,
      checksum = ''stale'', created_at = ''2025-01-01T09:30:00'', modified_at = None\<rparr>"

definition failing_observer :: observer where
  "failing_observer =
     \<lparr>observer_name = ''FailingObserver'',
      observer_raises = (\<lambda>i t. Some (ObserverError ''RuntimeError'' ''observer failed''))\<rparr>"

definition demo_state :: state where
  "demo_state =
     \<lparr>db = \<lparr>artefacts = [demo_song, demo_score], sqlite_sequence = 2\<rparr>,
      encryption = \<lparr>manager_key = Some demo_key\<rparr>,
      observers = [TimestampObserver],
      files = [''new.txt'' \<mapsto> [119, 111, 114, 108, 100]],
      unwritable = Map.empty,
      stdout = [],
      clock = (\<lambda>i. if i = 0 then ''2025-01-01T10:00:00'' else ''2025-01-01T10:00:01''),
      entropy = (\<lambda>i. word_of_nat i),
      notifications = []\<rparr>"

section \<open>The integrity verifier\<close>

text \<open>The model of \<open>hashlib.sha256\<close> on the test vector \<open>abc\<close> of FIPS 180-4.\<close>

lemma calculate_checksum_abc:
  "calculate_checksum [0x61, 0x62, 0x63] =
     ''ba7816bf8f01cfea414140de5dae2223b00361a396177a9cb410ff61f20015ad''"
  by code_simp

lemma length_hexdigest: "length (hexdigest bs) = 2 * length bs"
  by (induction bs) (simp_all add: hexdigest_def)

lemma length_sha256_digest: "length (sha256_digest m) = 32"
  by (simp add: sha256_digest_def bytes_of_u32_def split: prod.splits)

lemma hex_digit_in: "hex_digit n \<in> set ''0123456789abcdef''"
proof -
  have "n mod 16 < length ''0123456789abcdef''" by simp
  then show ?thesis unfolding hex_digit_def by (rule nth_mem)
qed

lemma set_hexdigest: "set (hexdigest bs) \<subseteq> set ''0123456789abcdef''"
  unfolding hexdigest_def using hex_digit_in by auto

lemma length_calculate_checksum: "length (calculate_checksum data) = 64"
  by (simp add: calculate_checksum_def length_hexdigest length_sha256_digest)

text \<open>
  Claim C9. For every byte sequence \<open>b\<close> and every string \<open>e\<close>, \<open>verify_checksum b e\<close>
  holds exactly when \<open>calculate_checksum b\<close> equals \<open>e\<close>. The digest is a function of
  the bytes alone (it takes no other argument and reads no state), and it is always a
  string of 64 characters, each a lower-case hexadecimal digit.
\<close>

theorem verify_checksum_iff:
  "verify_checksum b e = (calculate_checksum b = e)
   \<and> length (calculate_checksum b) = 64
   \<and> set (calculate_checksum b) \<subseteq> set ''0123456789abcdef''"
proof (intro conjI)
  show "verify_checksum b e = (calculate_checksum b = e)"
    by (simp add: verify_checksum_def)
  show "length (calculate_checksum b) = 64"
    by (rule length_calculate_checksum)
  show "set (calculate_checksum b) \<subseteq> set ''0123456789abcdef''"
    unfolding calculate_checksum_def by (rule set_hexdigest)
qed

section \<open>Permissions\<close>

text \<open>
  Claim C3. A standard principal may view every artefact and may modify or delete an
  artefact exactly when its own identifier is the owner's; an admin principal may view,
  modify and delete every artefact.
\<close>

theorem principal_permissions:
  "can_view_artefact (User uid n r) owner
   \<and> (can_modify_artefact (User uid n r) owner \<longleftrightarrow> uid = owner)
   \<and> (can_delete_artefact (User uid n r) owner \<longleftrightarrow> uid = owner)
   \<and> can_view_artefact (AdminUser uid n r) owner
   \<and> can_modify_artefact (AdminUser uid n r) owner
   \<and> can_delete_artefact (AdminUser uid n r) owner"
  by simp

section \<open>The confidentiality engine\<close>

text \<open>
  The stand-in decrypts what it encrypts, for every key, nonce and plaintext; and the
  first two nonces drawn from the sample entropy.
\<close>

lemma demo_round_trip:
  "aesgcm_encrypt demo_aesgcm k n p = Inr c \<Longrightarrow> aesgcm_decrypt demo_aesgcm k n c = Inr p"
  by (auto simp: demo_aesgcm_def demo_tag_def word_bw_assocs map_idI)

lemma demo_nonces:
  "fst (os_urandom 12 (\<lambda>i. word_of_nat i)) = [0, 1, 2, 3, 4, 5, 6, 7, 8, 9, 10, 11]"
  "fst (os_urandom 12 (snd (os_urandom 12 (\<lambda>i. word_of_nat i)))) =
     [12, 13, 14, 15, 16, 17, 18, 19, 20, 21, 22, 23]"
  by code_simp+

lemma demo_encrypt_first:
  "aesgcm_encrypt demo_aesgcm demo_key [0, 1, 2, 3, 4, 5, 6, 7, 8, 9, 10, 11] [104, 105] =
     Inr ([10, 11] @ replicate 16 51)"
  by code_simp

lemma demo_encrypt_second:
  "aesgcm_encrypt demo_aesgcm demo_key [12, 13, 14, 15, 16, 17, 18, 19, 20, 21, 22, 23] [104, 105] =
     Inr ([154, 155] @ replicate 16 195)"
  by code_simp

lemma snd_strategy_encrypt:
  "snd (AES256GCMStrategy_encrypt L p k r) = snd (os_urandom 12 r)"
  by (simp add: AES256GCMStrategy_encrypt_def split: prod.splits sum.splits)

text \<open>
  Claim C1. \<open>AES256GCMStrategy.encrypt\<close> draws a nonce \<open>n\<close> of exactly 12 bytes and
  returns \<open>n\<close> immediately followed by the ciphertext with its tag; 
  \<open>AES256GCMStrategy.decrypt\<close> splits a payload after its first 12 bytes. So wherever
  the package itself turns the plaintext \<open>p\<close> under the key \<open>k\<close> and the nonce drawn
  into \<open>c\<close> and \<open>c\<close> back into \<open>p\<close> (the two hypotheses: the round trip of \<open>AESGCM\<close>,
  which is not part of the program), decrypting the payload of \<open>encrypt\<close> returns exactly
  \<open>p\<close>. The key is any key the package accepts, a 32-byte key among them.
\<close>

theorem strategy_round_trip:
  assumes "aesgcm_encrypt L k (fst (os_urandom 12 r)) p = Inr c"
    and "aesgcm_decrypt L k (fst (os_urandom 12 r)) c = Inr p"
  shows "length (fst (os_urandom 12 r)) = 12
         \<and> fst (AES256GCMStrategy_encrypt L p k r) = Inr (fst (os_urandom 12 r) @ c)
         \<and> AES256GCMStrategy_decrypt L (fst (os_urandom 12 r) @ c) k = Inr p"
  using assms
  by (simp add: AES256GCMStrategy_encrypt_def AES256GCMStrategy_decrypt_def os_urandom_def
      split: prod.splits)

text \<open>
  The round trip on the bytes \<open>hi\<close> under the 32-byte key \<open>demo_key\<close>: the payload is
  the nonce \<open>0, ..., 11\<close>, two bytes of ciphertext and sixteen bytes of tag.
\<close>

theorem strategy_round_trip_witness:
  "length demo_key = 32
   \<and> fst (AES256GCMStrategy_encrypt demo_aesgcm [104, 105] demo_key (\<lambda>i. word_of_nat i)) =
       Inr ([0, 1, 2, 3, 4, 5, 6, 7, 8, 9, 10, 11] @ [10, 11] @ replicate 16 51)
   \<and> AES256GCMStrategy_decrypt demo_aesgcm
        ([0, 1, 2, 3, 4, 5, 6, 7, 8, 9, 10, 11] @ [10, 11] @ replicate 16 51) demo_key =
       Inr [104, 105]"
proof -
  have len: "length demo_key = 32"
    by (simp add: demo_key_def)
  note enc = demo_encrypt_first [folded demo_nonces(1)]
  note dec = demo_round_trip [OF enc]
  from strategy_round_trip [OF enc dec] len show ?thesis
    by (simp add: demo_nonces(1))
qed

text \<open>
  Claim C8. With no key set, \<open>encrypt_data\<close> and \<open>decrypt_data\<close> raise
  \<open>ValueError("need to set key first")\<close>. \<open>set_key\<close> raises
  \<open>ValueError("key must be 32 bytes")\<close> for a key whose length is not 32 and stores a
  key of 32 bytes. With a key set, \<open>encrypt_data\<close> and \<open>decrypt_data\<close> are the
  strategy's \<open>encrypt\<close> and \<open>decrypt\<close> under that key, and their outcome is neither of
  the two errors.
\<close>

theorem key_errors:
  "(manager_key em = None \<longrightarrow>
      encrypt_data L em d r = (Inl (ValueError ''need to set key first''), r)
      \<and> decrypt_data L em c = Inl (ValueError ''need to set key first''))
   \<and> (length k \<noteq> 32 \<longrightarrow> set_key em k = Inl (ValueError ''key must be 32 bytes''))
   \<and> (length k = 32 \<longrightarrow> set_key em k = Inr (em\<lparr>manager_key := Some k\<rparr>))
   \<and> (manager_key em = Some k \<longrightarrow>
        encrypt_data L em d r = AES256GCMStrategy_encrypt L d k r
        \<and> decrypt_data L em c = AES256GCMStrategy_decrypt L c k
        \<and> fst (encrypt_data L em d r) \<noteq> Inl (ValueError ''need to set key first'')
        \<and> fst (encrypt_data L em d r) \<noteq> Inl (ValueError ''key must be 32 bytes'')
        \<and> decrypt_data L em c \<noteq> Inl (ValueError ''need to set key first'')
        \<and> decrypt_data L em c \<noteq> Inl (ValueError ''key must be 32 bytes''))"
  by (auto simp: encrypt_data_def decrypt_data_def set_key_def AES256GCMStrategy_encrypt_def
      AES256GCMStrategy_decrypt_def Let_def split: prod.splits sum.splits)

text \<open>
  The four cases on concrete managers: no key; a key of three bytes offered; the key of
  32 bytes offered; the key of 32 bytes set.
\<close>

theorem key_errors_witness:
  "fst (encrypt_data demo_aesgcm \<lparr>manager_key = None\<rparr> [104, 105] (\<lambda>i. 0)) =
     Inl (ValueError ''need to set key first'')
   \<and> decrypt_data demo_aesgcm \<lparr>manager_key = None\<rparr> (encrypted_data demo_song) =
     Inl (ValueError ''need to set key first'')
   \<and> length [1, 2, 3 :: byte] \<noteq> 32
   \<and> set_key \<lparr>manager_key = None\<rparr> [1, 2, 3] = Inl (ValueError ''key must be 32 bytes'')
   \<and> length demo_key = 32
   \<and> set_key \<lparr>manager_key = None\<rparr> demo_key = Inr \<lparr>manager_key = Some demo_key\<rparr>
   \<and> fst (encrypt_data demo_aesgcm \<lparr>manager_key = Some demo_key\<rparr> [104, 105] (\<lambda>i. 0)) \<noteq>
     Inl (ValueError ''need to set key first'')
   \<and> decrypt_data demo_aesgcm \<lparr>manager_key = Some demo_key\<rparr> (encrypted_data demo_song) \<noteq>
     Inl (ValueError ''need to set key first'')"
proof -
  let ?none = "\<lparr>manager_key = None\<rparr>"
  let ?set = "\<lparr>manager_key = Some demo_key\<rparr>"
  have short: "length [1, 2, 3 :: byte] \<noteq> 32" by simp
  have full: "length demo_key = 32" by (simp add: demo_key_def)
  have a: "manager_key ?none = None" by simp
  have b: "manager_key ?set = Some demo_key" by simp
  note none_short = key_errors [where em = ?none and L = demo_aesgcm and d = "[104, 105]"
      and r = "\<lambda>i. 0" and c = "encrypted_data demo_song" and k = "[1, 2, 3]"]
  note none_full = key_errors [where em = ?none and L = demo_aesgcm and d = "[104, 105]"
      and r = "\<lambda>i. 0" and c = "encrypted_data demo_song" and k = demo_key]
  note set_full = key_errors [where em = ?set and L = demo_aesgcm and d = "[104, 105]"
      and r = "\<lambda>i. 0" and c = "encrypted_data demo_song" and k = demo_key]
  from none_short a have "encrypt_data demo_aesgcm ?none [104, 105] (\<lambda>i. 0) =
      (Inl (ValueError ''need to set key first''), \<lambda>i. 0)"
    by blast
  then have 1: "fst (encrypt_data demo_aesgcm ?none [104, 105] (\<lambda>i. 0)) =
      Inl (ValueError ''need to set key first'')"
    by simp
  from none_short a have 2: "decrypt_data demo_aesgcm ?none (encrypted_data demo_song) =
      Inl (ValueError ''need to set key first'')"
    by blast
  from none_short short have 3: "set_key ?none [1, 2, 3] = Inl (ValueError ''key must be 32 bytes'')"
    by blast
  from none_full full have "set_key ?none demo_key = Inr (?none\<lparr>manager_key := Some demo_key\<rparr>)"
    by blast
  then have 4: "set_key ?none demo_key = Inr ?set"
    by simp
  from set_full b have 5: "fst (encrypt_data demo_aesgcm ?set [104, 105] (\<lambda>i. 0)) \<noteq>
      Inl (ValueError ''need to set key first'')"
    by blast
  from set_full b have 6: "decrypt_data demo_aesgcm ?set (encrypted_data demo_song) \<noteq>
      Inl (ValueError ''need to set key first'')"
    by blast
  from 1 2 short 3 full 4 5 6 show ?thesis by blast
qed

text \<open>
  Claim C5, as stated: two calls of \<open>encrypt\<close> on the same plaintext under the same key
  give different payloads. The nonce is whatever \<open>os.urandom\<close> delivers, and the payload
  is a function of key, nonce and plaintext: on an entropy source that delivers the same
  twelve bytes twice, the two payloads are the same.
\<close>

theorem repeated_nonce_same_payload:
  "fst (AES256GCMStrategy_encrypt demo_aesgcm [104, 105] demo_key (\<lambda>i. 0)) =
   fst (AES256GCMStrategy_encrypt demo_aesgcm [104, 105] demo_key
          (snd (AES256GCMStrategy_encrypt demo_aesgcm [104, 105] demo_key (\<lambda>i. 0))))"
  by (simp add: snd_strategy_encrypt) (simp add: AES256GCMStrategy_encrypt_def os_urandom_def)

text \<open>
  Claim C5, amended. Two successive calls of \<open>encrypt\<close> on the same plaintext under the
  same key draw two nonces \<open>n1\<close> and \<open>n2\<close> of 12 bytes each, the second from the
  entropy the first call left. Where the package round-trips the plaintext under both
  nonces, the first payload is \<open>n1\<close> followed by its ciphertext and the second is \<open>n2\<close>
  followed by its ciphertext, the two payloads differ exactly when the two nonces
  differ, and both payloads decrypt back to the plaintext.
\<close>

theorem repeated_encryption:
  assumes n1: "n1 = fst (os_urandom 12 r)"
    and n2: "n2 = fst (os_urandom 12 (snd (os_urandom 12 r)))"
    and e1: "aesgcm_encrypt L k n1 p = Inr c1"
    and d1: "aesgcm_decrypt L k n1 c1 = Inr p"
    and e2: "aesgcm_encrypt L k n2 p = Inr c2"
    and d2: "aesgcm_decrypt L k n2 c2 = Inr p"
  shows "fst (AES256GCMStrategy_encrypt L p k r) = Inr (n1 @ c1)
         \<and> fst (AES256GCMStrategy_encrypt L p k (snd (AES256GCMStrategy_encrypt L p k r))) =
             Inr (n2 @ c2)
         \<and> (n1 @ c1 \<noteq> n2 @ c2 \<longleftrightarrow> n1 \<noteq> n2)
         \<and> AES256GCMStrategy_decrypt L (n1 @ c1) k = Inr p
         \<and> AES256GCMStrategy_decrypt L (n2 @ c2) k = Inr p"
proof (intro conjI)
  have len1: "length n1 = 12" and len2: "length n2 = 12"
    by (simp_all add: n1 n2 os_urandom_def)
  show "fst (AES256GCMStrategy_encrypt L p k r) = Inr (n1 @ c1)"
    using e1 by (simp add: AES256GCMStrategy_encrypt_def n1 os_urandom_def)
  show "fst (AES256GCMStrategy_encrypt L p k (snd (AES256GCMStrategy_encrypt L p k r))) =
      Inr (n2 @ c2)"
    using e2
    by (simp add: snd_strategy_encrypt) (simp add: AES256GCMStrategy_encrypt_def n2 os_urandom_def)
  show "(n1 @ c1 \<noteq> n2 @ c2) = (n1 \<noteq> n2)"
  proof -
    have "n1 = n2 \<Longrightarrow> c1 = c2" using e1 e2 by simp
    with len1 len2 show ?thesis by auto
  qed
  show "AES256GCMStrategy_decrypt L (n1 @ c1) k = Inr p"
    using d1 len1 by (simp add: AES256GCMStrategy_decrypt_def)
  show "AES256GCMStrategy_decrypt L (n2 @ c2) k = Inr p"
    using d2 len2 by (simp add: AES256GCMStrategy_decrypt_def)
qed

text \<open>
  On the sample entropy the nonces are \<open>0, ..., 11\<close> and \<open>12, ..., 23\<close>: two different
  payloads of the bytes \<open>hi\<close>, each decrypting to \<open>hi\<close>.
\<close>

theorem repeated_encryption_witness:
  "fst (AES256GCMStrategy_encrypt demo_aesgcm [104, 105] demo_key (\<lambda>i. word_of_nat i)) =
     Inr ([0, 1, 2, 3, 4, 5, 6, 7, 8, 9, 10, 11] @ [10, 11] @ replicate 16 51)
   \<and> fst (AES256GCMStrategy_encrypt demo_aesgcm [104, 105] demo_key
        (snd (AES256GCMStrategy_encrypt demo_aesgcm [104, 105] demo_key (\<lambda>i. word_of_nat i)))) =
     Inr ([12, 13, 14, 15, 16, 17, 18, 19, 20, 21, 22, 23] @ [154, 155] @ replicate 16 195)
   \<and> [0, 1, 2, 3, 4, 5, 6, 7, 8, 9, 10, 11] @ [10, 11] @ replicate 16 51 \<noteq>
       [12, 13, 14, 15, 16, 17, 18, 19, 20, 21, 22, 23] @ [154, 155] @ replicate 16 (195 :: byte)
   \<and> AES256GCMStrategy_decrypt demo_aesgcm
        ([0, 1, 2, 3, 4, 5, 6, 7, 8, 9, 10, 11] @ [10, 11] @ replicate 16 51) demo_key =
     Inr [104, 105]
   \<and> AES256GCMStrategy_decrypt demo_aesgcm
        ([12, 13, 14, 15, 16, 17, 18, 19, 20, 21, 22, 23] @ [154, 155] @ replicate 16 195) demo_key =
     Inr [104, 105]"
proof -
  note e1 = demo_encrypt_first
  note e2 = demo_encrypt_second
  note d1 = demo_round_trip [OF e1]
  note d2 = demo_round_trip [OF e2]
  have differ: "[0, 1, 2, 3, 4, 5, 6, 7, 8, 9, 10, 11] \<noteq>
      [12, 13, 14, 15, 16, 17, 18, 19, 20, 21, 22, 23 :: byte]"
    by simp
  from repeated_encryption [OF demo_nonces(1) [symmetric] demo_nonces(2) [symmetric] e1 d1 e2 d2]
    differ
  show ?thesis by blast
qed

section \<open>The artefact manager\<close>

subsection \<open>The sample state\<close>

lemma demo_get_song: "db_get_artefact (db demo_state) 1 = Inr (Some demo_song)"
  by (simp add: demo_state_def db_get_artefact_def sqlite_integer_def demo_song_def)

lemma demo_get_score: "db_get_artefact (db demo_state) 2 = Inr (Some demo_score)"
  by (simp add: demo_state_def db_get_artefact_def sqlite_integer_def demo_song_def demo_score_def)

lemma demo_get_none: "db_get_artefact (db demo_state) 7 = Inr None"
  by (simp add: demo_state_def db_get_artefact_def sqlite_integer_def demo_song_def demo_score_def)

lemma demo_decrypt_song:
  "decrypt_data demo_aesgcm (encryption demo_state) (encrypted_data demo_song) = Inr [104, 105]"
  by code_simp

lemma demo_decrypt_score:
  "decrypt_data demo_aesgcm (encryption demo_state) (encrypted_data demo_score) =
     Inl (CryptographyError ''InvalidTag'' [])"
  by code_simp

lemma demo_checksum_stale: "calculate_checksum p \<noteq> checksum demo_song"
  using length_calculate_checksum [of p] by (auto simp: demo_song_def)

lemma demo_update_owner:
  "fst (update_artefact demo_aesgcm 1 ''new.txt'' (User 1 ''amna'' ''user'') demo_state) = Inr True"
  by (simp add: update_artefact_def update_artefact_try_def read_file_def
      encrypt_data_def AES256GCMStrategy_encrypt_def db_update_artefact_def now_isoformat_def
      notify_observers_def on_artefact_modified_def Let_def TimestampObserver_def
      db_get_artefact_def sqlite_integer_def demo_aesgcm_def demo_state_def demo_song_def
      demo_score_def split: prod.splits)

subsection \<open>The lookup of an artefact\<close>

text \<open>
  \<open>get_artefact\<close> returns a row or \<open>None\<close> only for an identifier in SQLite's range, and
  a row it returns is one the \<open>UPDATE\<close> and \<open>DELETE\<close> statements find.
\<close>

lemma db_get_artefact_in_range: "db_get_artefact d aid = Inr r \<Longrightarrow> sqlite_integer aid"
  by (simp add: db_get_artefact_def split: if_splits)

lemma db_get_artefact_rowcount:
  "db_get_artefact d aid = Inr (Some a) \<Longrightarrow>
   0 < length (filter (\<lambda>r. artefact_id r = aid) (artefacts d))"
  by (auto simp: db_get_artefact_def find_Some_iff filter_empty_conv split: if_splits
      intro!: nth_mem)

lemma db_get_artefact_out_of_range:
  "db_get_artefact d 9223372036854775808 = Inl sqlite_overflow"
  by (simp add: db_get_artefact_def sqlite_integer_def)

subsection \<open>Retrieval\<close>

text \<open>
  Claim C2. When the record exists, its payload decrypts to some plaintext and the
  digest of that plaintext is not the stored checksum, \<open>get_artefact_data\<close> returns
  \<open>None\<close> for every user and every \<open>output_path\<close>, the file system is as it was, and
  nothing but the printed text has changed.
\<close>

theorem integrity_mismatch_refused:
  assumes "db_get_artefact (db s) aid = Inr (Some a)"
    and "decrypt_data L (encryption s) (encrypted_data a) = Inr p"
    and "calculate_checksum p \<noteq> checksum a"
  shows "fst (get_artefact_data L aid u output_path s) = Inr None
         \<and> files (snd (get_artefact_data L aid u output_path s)) = files s
         \<and> (snd (get_artefact_data L aid u output_path s))\<lparr>stdout := stdout s\<rparr> = s"
proof -
  have view: "can_view_artefact u (owner_id a)" by (cases u) simp_all
  show ?thesis
    using assms view
    by (simp add: get_artefact_data_def get_artefact_data_try_def Let_def py_print_def)
qed

text \<open>
  User 2 asks for the content of \<open>demo_song\<close>, which decrypts to \<open>hi\<close> and whose stored
  checksum is stale: no content, and no file \<open>out.bin\<close>.
\<close>

theorem integrity_mismatch_refused_witness:
  "db_get_artefact (db demo_state) 1 = Inr (Some demo_song)
   \<and> decrypt_data demo_aesgcm (encryption demo_state) (encrypted_data demo_song) = Inr [104, 105]
   \<and> calculate_checksum [104, 105] \<noteq> checksum demo_song
   \<and> fst (get_artefact_data demo_aesgcm 1 (User 2 ''bilal'' ''user'') (Some ''out.bin'') demo_state) =
       Inr None
   \<and> files (snd (get_artefact_data demo_aesgcm 1 (User 2 ''bilal'' ''user'') (Some ''out.bin'')
        demo_state)) ''out.bin'' = None"
proof -
  have "files demo_state ''out.bin'' = None"
    by (simp add: demo_state_def)
  then show ?thesis
    using integrity_mismatch_refused [OF demo_get_song demo_decrypt_song demo_checksum_stale,
        of "User 2 ''bilal'' ''user''" "Some ''out.bin''"]
      demo_get_song demo_decrypt_song demo_checksum_stale [of "[104, 105]"]
    by simp
qed

text \<open>
  Claim C4. Decryption comes first. When decrypting the stored payload raises \<open>e\<close>
  (for a payload the cipher rejects, \<open>InvalidTag\<close>), \<open>get_artefact_data\<close> returns \<open>None\<close>
  whatever the stored checksum is, and the only text it prints is
  \<open>Error retrieving artefact: \<close> followed by the message of \<open>e\<close>, or by the class name of
  \<open>e\<close> when the message is empty. When decryption succeeds and the digest differs, it
  returns \<open>None\<close> and the last two texts it prints are the checksum warning and the bar.
  The two failures are told apart by what is printed; the returned value is \<open>None\<close> in
  both.
\<close>

theorem authentication_failure_before_digest:
  assumes "db_get_artefact (db s) aid = Inr (Some a)"
  shows "(decrypt_data L (encryption s) (encrypted_data a) = Inl e \<longrightarrow>
            get_artefact_data L aid u output_path s =
              (Inr None, s\<lparr>stdout := stdout s @
                 [''Error retrieving artefact: '' @
                  (if exn_str e \<noteq> [] then exn_str e else exn_type_name e)]\<rparr>))
         \<and> (decrypt_data L (encryption s) (encrypted_data a) = Inr p \<longrightarrow>
            calculate_checksum p \<noteq> checksum a \<longrightarrow>
            fst (get_artefact_data L aid u output_path s) = Inr None
            \<and> drop (length (stdout s) + 7) (stdout (snd (get_artefact_data L aid u output_path s))) =
                [''WARNING: Checksum mismatch! Data may have been tampered with.'', bar])"
proof -
  have view: "can_view_artefact u (owner_id a)" by (cases u) simp_all
  show ?thesis
    using assms view
    by (simp add: get_artefact_data_def get_artefact_data_try_def Let_def py_print_def)
qed

text \<open>
  \<open>demo_score\<close> has a corrupted payload and a stale checksum: the outcome is the
  authentication failure. \<open>demo_song\<close> has a sound payload and a stale checksum: the
  outcome is the checksum warning.
\<close>

theorem authentication_failure_before_digest_witness:
  "db_get_artefact (db demo_state) 2 = Inr (Some demo_score)
   \<and> decrypt_data demo_aesgcm (encryption demo_state) (encrypted_data demo_score) =
       Inl (CryptographyError ''InvalidTag'' [])
   \<and> fst (get_artefact_data demo_aesgcm 2 (User 1 ''amna'' ''user'') None demo_state) = Inr None
   \<and> stdout (snd (get_artefact_data demo_aesgcm 2 (User 1 ''amna'' ''user'') None demo_state)) =
       [''Error retrieving artefact: InvalidTag'']
   \<and> db_get_artefact (db demo_state) 1 = Inr (Some demo_song)
   \<and> decrypt_data demo_aesgcm (encryption demo_state) (encrypted_data demo_song) = Inr [104, 105]
   \<and> calculate_checksum [104, 105] \<noteq> checksum demo_song
   \<and> fst (get_artefact_data demo_aesgcm 1 (User 1 ''amna'' ''user'') None demo_state) = Inr None
   \<and> drop 7 (stdout (snd (get_artefact_data demo_aesgcm 1 (User 1 ''amna'' ''user'') None demo_state))) =
       [''WARNING: Checksum mismatch! Data may have been tampered with.'', bar]"
proof -
  have out: "stdout demo_state = []"
    by (simp add: demo_state_def)
  show ?thesis
    using authentication_failure_before_digest [OF demo_get_score,
        of demo_aesgcm "CryptographyError ''InvalidTag'' []" "User 1 ''amna'' ''user''" None "[]"]
      authentication_failure_before_digest [OF demo_get_song,
        of demo_aesgcm "CryptographyError ''InvalidTag'' []" "User 1 ''amna'' ''user''" None "[104, 105]"]
      demo_get_song demo_get_score demo_decrypt_song demo_decrypt_score
      demo_checksum_stale [of "[104, 105]"] out
    by simp
qed

subsection \<open>Update\<close>

text \<open>
  For an identifier in SQLite's range that no row has, and for a row the user may not
  modify, \<open>update_artefact\<close> returns \<open>False\<close>, the database and the notifications are as
  they were, and nothing but the printed text has changed.
\<close>

lemma failed_update_changes_nothing:
  assumes "db_get_artefact (db s) aid = Inr None
           \<or> (\<exists>a. db_get_artefact (db s) aid = Inr (Some a)
                 \<and> \<not> can_modify_artefact u (owner_id a))"
  shows "fst (update_artefact L aid new_file_path u s) = Inr False
         \<and> db (snd (update_artefact L aid new_file_path u s)) = db s
         \<and> notifications (snd (update_artefact L aid new_file_path u s)) = notifications s
         \<and> (snd (update_artefact L aid new_file_path u s))\<lparr>stdout := stdout s\<rparr> = s"
  using assms by (auto simp: update_artefact_def py_print_def)

text \<open>An update of artefact 7, which does not exist, and an update of \<open>demo_song\<close> by user 2.\<close>

lemma failed_update_changes_nothing_sample:
  "db_get_artefact (db demo_state) 7 = Inr None
   \<and> fst (update_artefact demo_aesgcm 7 ''new.txt'' (User 1 ''amna'' ''user'') demo_state) = Inr False
   \<and> db (snd (update_artefact demo_aesgcm 7 ''new.txt'' (User 1 ''amna'' ''user'') demo_state)) =
       db demo_state
   \<and> db_get_artefact (db demo_state) 1 = Inr (Some demo_song)
   \<and> \<not> can_modify_artefact (User 2 ''bilal'' ''user'') (owner_id demo_song)
   \<and> fst (update_artefact demo_aesgcm 1 ''new.txt'' (User 2 ''bilal'' ''user'') demo_state) = Inr False
   \<and> db (snd (update_artefact demo_aesgcm 1 ''new.txt'' (User 2 ''bilal'' ''user'') demo_state)) =
       db demo_state
   \<and> notifications (snd (update_artefact demo_aesgcm 1 ''new.txt'' (User 2 ''bilal'' ''user'')
        demo_state)) = []"
proof -
  have denied: "\<not> can_modify_artefact (User 2 ''bilal'' ''user'') (owner_id demo_song)"
    by (simp add: demo_song_def)
  have quiet: "notifications demo_state = []"
    by (simp add: demo_state_def)
  show ?thesis
    using failed_update_changes_nothing [of demo_state 7 "User 1 ''amna'' ''user''" demo_aesgcm
        "''new.txt''"]
      failed_update_changes_nothing [of demo_state 1 "User 2 ''bilal'' ''user''" demo_aesgcm
        "''new.txt''"]
      demo_get_none demo_get_song denied quiet
    by simp
qed

text \<open>
  Claim C10. An update of an artefact that does not exist returns \<open>False\<close> and changes
  nothing. The program does not do so for the identifier \<open>2^63\<close>, which no artefact has:
  \<open>get_artefact\<close> raises \<open>OverflowError\<close> before the \<open>try\<close> statement, and
  \<open>update_artefact\<close> raises it to its caller instead of returning \<open>False\<close>, in every
  state and for every user and file. The state is unchanged.
\<close>

theorem update_out_of_range_raises:
  "update_artefact L 9223372036854775808 new_file_path u s =
     (Inl (OverflowError ''Python int too large to convert to SQLite INTEGER''), s)"
  by (simp add: update_artefact_def db_get_artefact_out_of_range sqlite_overflow_def)


subsection \<open>Failures at the boundary of the manager\<close>

text \<open>
  What the manager does with the four failures, for an identifier in SQLite's range.
  An artefact type outside \<open>lyrics\<close>, \<open>score\<close>, \<open>audio\<close> is raised by \<open>create_artefact\<close>
  as \<open>ValueError\<close>, and a source file that does not exist is raised by
  \<open>create_artefact\<close> and (for an artefact the user may modify) by \<open>update_artefact\<close> as
  \<open>FileNotFoundError\<close>; the console wraps both calls in a handler. A missing artefact
  gives \<open>None\<close> from \<open>read_artefact\<close> and \<open>get_artefact_data\<close> and \<open>False\<close> from
  \<open>update_artefact\<close> and \<open>delete_artefact\<close>; a denied permission gives \<open>False\<close> from
  \<open>update_artefact\<close> and \<open>delete_artefact\<close>. The state is unchanged in each case but
  for the line a denial prints.
\<close>

lemma manager_failure_results:
  "(atype \<notin> set [''lyrics'', ''score'', ''audio''] \<longrightarrow>
      create_artefact L owner path name atype s =
        (Inl (ValueError (''Artefact type must be 'lyrics', 'score', or 'audio'' @ [CHR 0x27])), s))
   \<and> (atype \<in> set [''lyrics'', ''score'', ''audio''] \<longrightarrow> files s path = None \<longrightarrow>
      create_artefact L owner path name atype s =
        (Inl (FileNotFoundError (''File not found: '' @ path)), s))
   \<and> (db_get_artefact (db s) aid = Inr None \<longrightarrow>
      read_artefact aid u s = Inr None
      \<and> get_artefact_data L aid u output_path s = (Inr None, s)
      \<and> update_artefact L aid path u s = (Inr False, s)
      \<and> delete_artefact aid u s = (Inr False, s))
   \<and> (db_get_artefact (db s) aid = Inr (Some a) \<longrightarrow> \<not> can_modify_artefact u (owner_id a) \<longrightarrow>
      fst (update_artefact L aid path u s) = Inr False)
   \<and> (db_get_artefact (db s) aid = Inr (Some a) \<longrightarrow> \<not> can_delete_artefact u (owner_id a) \<longrightarrow>
      fst (delete_artefact aid u s) = Inr False)
   \<and> (db_get_artefact (db s) aid = Inr (Some a) \<longrightarrow> can_modify_artefact u (owner_id a) \<longrightarrow>
      files s path = None \<longrightarrow>
      update_artefact L aid path u s =
        (Inl (FileNotFoundError (''File not found: '' @ path)), s))"
  by (simp add: create_artefact_def read_artefact_def get_artefact_data_def update_artefact_def
      delete_artefact_def)

text \<open>
  Each case on the sample state: the type \<open>video\<close>; the missing file \<open>lost.txt\<close>; the
  missing artefact 7; user 2 on the artefact of user 1; user 1 updating from
  \<open>lost.txt\<close>.
\<close>

lemma manager_failure_results_sample:
  "''video'' \<notin> set [''lyrics'', ''score'', ''audio'']
   \<and> fst (create_artefact demo_aesgcm (User 1 ''amna'' ''user'') ''new.txt'' ''Clip'' ''video''
        demo_state) =
       Inl (ValueError (''Artefact type must be 'lyrics', 'score', or 'audio'' @ [CHR 0x27]))
   \<and> files demo_state ''lost.txt'' = None
   \<and> fst (create_artefact demo_aesgcm (User 1 ''amna'' ''user'') ''lost.txt'' ''Lost'' ''audio''
        demo_state) = Inl (FileNotFoundError ''File not found: lost.txt'')
   \<and> db_get_artefact (db demo_state) 7 = Inr None
   \<and> read_artefact 7 (User 1 ''amna'' ''user'') demo_state = Inr None
   \<and> fst (get_artefact_data demo_aesgcm 7 (User 1 ''amna'' ''user'') None demo_state) = Inr None
   \<and> fst (update_artefact demo_aesgcm 7 ''lost.txt'' (User 1 ''amna'' ''user'') demo_state) = Inr False
   \<and> fst (delete_artefact 7 (User 1 ''amna'' ''user'') demo_state) = Inr False
   \<and> db_get_artefact (db demo_state) 1 = Inr (Some demo_song)
   \<and> \<not> can_modify_artefact (User 2 ''bilal'' ''user'') (owner_id demo_song)
   \<and> fst (update_artefact demo_aesgcm 1 ''lost.txt'' (User 2 ''bilal'' ''user'') demo_state) = Inr False
   \<and> \<not> can_delete_artefact (User 2 ''bilal'' ''user'') (owner_id demo_song)
   \<and> fst (delete_artefact 1 (User 2 ''bilal'' ''user'') demo_state) = Inr False
   \<and> can_modify_artefact (User 1 ''amna'' ''user'') (owner_id demo_song)
   \<and> fst (update_artefact demo_aesgcm 1 ''lost.txt'' (User 1 ''amna'' ''user'') demo_state) =
       Inl (FileNotFoundError ''File not found: lost.txt'')"
proof -
  have lost: "files demo_state ''lost.txt'' = None"
    by (simp add: demo_state_def)
  have owner_song: "owner_id demo_song = 1"
    by (simp add: demo_song_def)
  note bad_type = manager_failure_results [where L = demo_aesgcm and owner = "User 1 ''amna'' ''user''"
      and path = "''new.txt''" and name = "''Clip''" and atype = "''video''" and s = demo_state
      and aid = 7 and u = "User 1 ''amna'' ''user''" and output_path = None and a = demo_song]
  note missing = manager_failure_results [where L = demo_aesgcm and owner = "User 1 ''amna'' ''user''"
      and path = "''lost.txt''" and name = "''Lost''" and atype = "''audio''" and s = demo_state
      and aid = 7 and u = "User 1 ''amna'' ''user''" and output_path = None and a = demo_song]
  note denied = manager_failure_results [where L = demo_aesgcm and owner = "User 1 ''amna'' ''user''"
      and path = "''lost.txt''" and name = "''Lost''" and atype = "''audio''" and s = demo_state
      and aid = 1 and u = "User 2 ''bilal'' ''user''" and output_path = None and a = demo_song]
  note owner = manager_failure_results [where L = demo_aesgcm and owner = "User 1 ''amna'' ''user''"
      and path = "''lost.txt''" and name = "''Lost''" and atype = "''audio''" and s = demo_state
      and aid = 1 and u = "User 1 ''amna'' ''user''" and output_path = None and a = demo_song]
  show ?thesis
    using bad_type missing denied owner lost owner_song demo_get_none demo_get_song
    by simp
qed

text \<open>
  Claim C6. A failure to find the artefact is recovered by the manager and comes back
  to the caller as \<open>None\<close> or \<open>False\<close>; no such failure leaves as an exception nobody
  catches. The program does not do so for the identifier \<open>2^63\<close>, which no artefact has:
  \<open>get_artefact\<close> raises \<open>OverflowError\<close> before any \<open>try\<close> statement of the manager, and
  \<open>read_artefact\<close>, \<open>get_artefact_data\<close> and \<open>delete_artefact\<close> raise it to their caller,
  in every state and for every user. The console calls \<open>read_artefact\<close> and
  \<open>delete_artefact\<close> outside any handler.
\<close>

theorem lookup_out_of_range_raises:
  "read_artefact 9223372036854775808 u s =
     Inl (OverflowError ''Python int too large to convert to SQLite INTEGER'')
   \<and> get_artefact_data L 9223372036854775808 u output_path s =
     (Inl (OverflowError ''Python int too large to convert to SQLite INTEGER''), s)
   \<and> delete_artefact 9223372036854775808 u s =
     (Inl (OverflowError ''Python int too large to convert to SQLite INTEGER''), s)"
  by (simp add: read_artefact_def get_artefact_data_def delete_artefact_def
      db_get_artefact_out_of_range sqlite_overflow_def)

subsection \<open>Notification of observers\<close>

text \<open>
  The loop over the observers: when it ends without an exception every observer of the
  list has been called once, in the order of the list; and it ends so when no observer
  raises.
\<close>

lemma notify_loop_ok:
  "notify_loop obs aid ts s = (Inr u, s') \<Longrightarrow>
   s' = s\<lparr>notifications := notifications s @ map (\<lambda>ob. (observer_name ob, aid, ts)) obs\<rparr>"
proof (induction obs arbitrary: s)
  case Nil
  then show ?case by simp
next
  case (Cons ob rest)
  let ?s1 = "s\<lparr>notifications := notifications s @ [(observer_name ob, aid, ts)]\<rparr>"
  from Cons.prems have quiet: "observer_raises ob aid ts = None"
    by (simp add: on_artefact_modified_def Let_def split: option.splits)
  with Cons.prems have "notify_loop rest aid ts ?s1 = (Inr u, s')"
    by (simp add: on_artefact_modified_def Let_def)
  then have "s' = ?s1\<lparr>notifications := notifications ?s1 @
      map (\<lambda>ob. (observer_name ob, aid, ts)) rest\<rparr>"
    by (rule Cons.IH)
  then show ?case by simp
qed

lemma notify_loop_quiet:
  "\<forall>ob\<in>set obs. observer_raises ob aid ts = None \<Longrightarrow>
   notify_loop obs aid ts s =
     (Inr (), s\<lparr>notifications := notifications s @ map (\<lambda>ob. (observer_name ob, aid, ts)) obs\<rparr>)"
proof (induction obs arbitrary: s)
  case Nil
  then show ?case by simp
next
  case (Cons ob rest)
  then show ?case
    by (simp add: on_artefact_modified_def Let_def)
qed

text \<open>
  The body of the \<open>try\<close> statement of \<open>update_artefact\<close>, once the file is read: when
  encryption raises, nothing is written; when it succeeds, the row is written and the
  observers are called with the second reading of the clock.
\<close>

lemma update_artefact_try_unwritten:
  assumes "files s p = Some d"
    and "encrypt_data L (encryption s) d (entropy s) = (Inl e, r')"
  shows "update_artefact_try L aid p s = (Inl e, s\<lparr>entropy := r'\<rparr>)"
  using assms by (simp add: update_artefact_try_def read_file_def)

lemma update_artefact_try_written:
  assumes src: "files s p = Some d"
    and enc: "encrypt_data L (encryption s) d (entropy s) = (Inr c, r')"
    and row: "db_get_artefact (db s) aid = Inr (Some a)"
  shows "\<exists>s2. observers s2 = observers s \<and> notifications s2 = notifications s \<and>
           update_artefact_try L aid p s =
             (case notify_loop (observers s) aid (clock s 1) s2 of
                (Inl e, s3) \<Rightarrow> (Inl e, s3)
              | (Inr u, s3) \<Rightarrow> (Inr True, s3))"
proof -
  let ?s2 = "s\<lparr>entropy := r',
      db := (db s)\<lparr>artefacts :=
        map (\<lambda>r. if artefact_id r = aid
                 then r\<lparr>encrypted_data := c, checksum := calculate_checksum d,
                        modified_at := Some (clock s 0)\<rparr>
                 else r) (artefacts (db s))\<rparr>,
      clock := \<lambda>i. clock s (Suc (Suc i))\<rparr>"
  from row have range: "sqlite_integer aid"
    by (rule db_get_artefact_in_range)
  from row have "0 < length (filter (\<lambda>r. artefact_id r = aid) (artefacts (db s)))"
    by (rule db_get_artefact_rowcount)
  with src enc range have "update_artefact_try L aid p s =
      (case notify_loop (observers s) aid (clock s 1) ?s2 of
         (Inl e, s3) \<Rightarrow> (Inl e, s3)
       | (Inr u, s3) \<Rightarrow> (Inr True, s3))"
    by (simp add: update_artefact_try_def read_file_def db_update_artefact_def now_isoformat_def
        notify_observers_def Let_def)
  moreover have "observers ?s2 = observers s" by simp
  moreover have "notifications ?s2 = notifications s" by simp
  ultimately show ?thesis by blast
qed


lemma update_true_notifies:
  assumes ok: "fst (update_artefact L aid p u s) = Inr True"
  shows "notifications (snd (update_artefact L aid p u s)) =
           notifications s @ map (\<lambda>ob. (observer_name ob, aid, clock s 1)) (observers s)"
proof (cases "db_get_artefact (db s) aid")
  case (Inl e)
  with ok show ?thesis by (simp add: update_artefact_def)
next
  case (Inr found)
  show ?thesis
  proof (cases found)
    case None
    with Inr ok show ?thesis by (simp add: update_artefact_def)
  next
    case (Some a)
    with Inr have row: "db_get_artefact (db s) aid = Inr (Some a)" by simp
    show ?thesis
    proof (cases "can_modify_artefact u (owner_id a)")
      case False
      with row ok show ?thesis by (simp add: update_artefact_def)
    next
      case True
      note allowed = this
      show ?thesis
      proof (cases "files s p")
        case None
        with row allowed ok show ?thesis by (simp add: update_artefact_def)
      next
        case (Some d)
        note src = this
        obtain res r' where enc: "encrypt_data L (encryption s) d (entropy s) = (res, r')"
          by (cases "encrypt_data L (encryption s) d (entropy s)")
        show ?thesis
        proof (cases res)
          case (Inl e)
          with enc src have "update_artefact_try L aid p s = (Inl e, s\<lparr>entropy := r'\<rparr>)"
            by (simp add: update_artefact_try_unwritten)
          with row allowed src ok show ?thesis
            by (simp add: update_artefact_def)
        next
          case (Inr c)
          with enc src row
          obtain s2 where quiet: "notifications s2 = notifications s"
            and body: "update_artefact_try L aid p s =
               (case notify_loop (observers s) aid (clock s 1) s2 of
                  (Inl e, s3) \<Rightarrow> (Inl e, s3)
                | (Inr u, s3) \<Rightarrow> (Inr True, s3))"
            using update_artefact_try_written by blast
          obtain nres s3 where loop: "notify_loop (observers s) aid (clock s 1) s2 = (nres, s3)"
            by (cases "notify_loop (observers s) aid (clock s 1) s2")
          show ?thesis
          proof (cases nres)
            case (Inl e)
            with loop body row allowed src ok show ?thesis
              by (simp add: update_artefact_def)
          next
            case (Inr v)
            with loop have "s3 = s2\<lparr>notifications := notifications s2 @
                map (\<lambda>ob. (observer_name ob, aid, clock s 1)) (observers s)\<rparr>"
              by (simp add: notify_loop_ok)
            with Inr loop body quiet row allowed src show ?thesis
              by (simp add: update_artefact_def py_print_def)
          qed
        qed
      qed
    qed
  qed
qed

lemma update_not_true_quiet:
  assumes quiet: "\<forall>ob\<in>set (observers s). observer_raises ob aid (clock s 1) = None"
    and failed: "fst (update_artefact L aid p u s) \<noteq> Inr True"
  shows "notifications (snd (update_artefact L aid p u s)) = notifications s"
proof (cases "db_get_artefact (db s) aid")
  case (Inl e)
  then show ?thesis by (simp add: update_artefact_def)
next
  case (Inr found)
  show ?thesis
  proof (cases found)
    case None
    with Inr show ?thesis by (simp add: update_artefact_def)
  next
    case (Some a)
    with Inr have row: "db_get_artefact (db s) aid = Inr (Some a)" by simp
    show ?thesis
    proof (cases "can_modify_artefact u (owner_id a)")
      case False
      with row show ?thesis by (simp add: update_artefact_def py_print_def)
    next
      case True
      note allowed = this
      show ?thesis
      proof (cases "files s p")
        case None
        with row allowed show ?thesis by (simp add: update_artefact_def)
      next
        case (Some d)
        note src = this
        obtain res r' where enc: "encrypt_data L (encryption s) d (entropy s) = (res, r')"
          by (cases "encrypt_data L (encryption s) d (entropy s)")
        show ?thesis
        proof (cases res)
          case (Inl e)
          with enc src have "update_artefact_try L aid p s = (Inl e, s\<lparr>entropy := r'\<rparr>)"
            by (simp add: update_artefact_try_unwritten)
          with row allowed src show ?thesis
            by (simp add: update_artefact_def py_print_def)
        next
          case (Inr c)
          with enc src row
          obtain s2 where body: "update_artefact_try L aid p s =
               (case notify_loop (observers s) aid (clock s 1) s2 of
                  (Inl e, s3) \<Rightarrow> (Inl e, s3)
                | (Inr u, s3) \<Rightarrow> (Inr True, s3))"
            using update_artefact_try_written by blast
          from quiet have "notify_loop (observers s) aid (clock s 1) s2 =
              (Inr (), s2\<lparr>notifications := notifications s2 @
                 map (\<lambda>ob. (observer_name ob, aid, clock s 1)) (observers s)\<rparr>)"
            by (rule notify_loop_quiet)
          with body row allowed src
          have "fst (update_artefact L aid p u s) = Inr True"
            by (simp add: update_artefact_def)
          with failed show ?thesis by simp
        qed
      qed
    qed
  qed
qed

lemma db_create_artefact_quiet:
  "notifications (snd (db_create_artefact oid name atype path enc csum s)) = notifications s"
  by (simp add: db_create_artefact_def now_isoformat_def Let_def)

lemma create_artefact_try_quiet:
  "notifications (snd (create_artefact_try L owner path name atype s)) = notifications s"
proof (cases "read_file path s")
  case (Inl e)
  then show ?thesis by (simp add: create_artefact_try_def)
next
  case (Inr file_data)
  obtain res r' where enc: "encrypt_data L (encryption s) file_data (entropy s) = (res, r')"
    by (cases "encrypt_data L (encryption s) file_data (entropy s)")
  show ?thesis
  proof (cases res)
    case (Inl e)
    with Inr enc show ?thesis by (simp add: create_artefact_try_def)
  next
    case (Inr c)
    with \<open>read_file path s = Inr file_data\<close> enc show ?thesis
      by (simp add: create_artefact_try_def Let_def db_create_artefact_quiet py_print_def)
  qed
qed

lemma create_artefact_quiet:
  "notifications (snd (create_artefact L owner path name atype s)) = notifications s"
proof -
  obtain res s' where body: "create_artefact_try L owner path name atype s = (res, s')"
    by (cases "create_artefact_try L owner path name atype s")
  with create_artefact_try_quiet [of L owner path name atype s]
  have "notifications s' = notifications s" by simp
  with body show ?thesis
    by (cases res) (auto simp: create_artefact_def py_print_def)
qed

lemma delete_artefact_quiet:
  "notifications (snd (delete_artefact aid u s)) = notifications s"
  by (simp add: delete_artefact_def db_delete_artefact_def py_print_def Let_def
      split: option.splits sum.splits)

text \<open>
  Claim C7, as stated: observers are notified on a successful update and only then,
  never on a failed one, and then every registered observer exactly once. With three
  observers registered, the second of which raises, \<open>update_artefact\<close> returns \<open>False\<close>;
  the first two observers have been called and the third has not.
\<close>

theorem failing_observer_notified:
  "fst (update_artefact demo_aesgcm 1 ''new.txt'' (User 1 ''amna'' ''user'')
     (demo_state\<lparr>observers := [TimestampObserver, failing_observer, ArtefactObserver]\<rparr>)) = Inr False
   \<and> notifications (snd (update_artefact demo_aesgcm 1 ''new.txt'' (User 1 ''amna'' ''user'')
     (demo_state\<lparr>observers := [TimestampObserver, failing_observer, ArtefactObserver]\<rparr>))) =
     [(''TimestampObserver'', 1, ''2025-01-01T10:00:01''),
      (''FailingObserver'', 1, ''2025-01-01T10:00:01'')]"
  by (simp add: update_artefact_def update_artefact_try_def read_file_def
      encrypt_data_def AES256GCMStrategy_encrypt_def db_update_artefact_def now_isoformat_def
      notify_observers_def on_artefact_modified_def Let_def TimestampObserver_def
      ArtefactObserver_def failing_observer_def py_print_def db_get_artefact_def
      sqlite_integer_def demo_aesgcm_def demo_state_def demo_song_def demo_score_def
      split: prod.splits)

text \<open>
  Claim C7, amended. When \<open>update_artefact\<close> returns \<open>True\<close>, every registered observer
  has been called exactly once before the return, in the order of registration, with
  the artefact identifier and one timestamp (the reading of the clock after the write):
  the notifications are those before, followed by one entry per observer.
  \<open>create_artefact\<close> and \<open>delete_artefact\<close> call no observer. An update that does not
  return \<open>True\<close> calls no observer, provided no registered observer raises.
\<close>

theorem update_notifications:
  "(fst (update_artefact L aid p u s) = Inr True \<longrightarrow>
      notifications (snd (update_artefact L aid p u s)) =
        notifications s @ map (\<lambda>ob. (observer_name ob, aid, clock s 1)) (observers s))
   \<and> notifications (snd (create_artefact L owner path name atype s)) = notifications s
   \<and> notifications (snd (delete_artefact aid u s)) = notifications s
   \<and> ((\<forall>ob\<in>set (observers s). observer_raises ob aid (clock s 1) = None) \<longrightarrow>
       fst (update_artefact L aid p u s) \<noteq> Inr True \<longrightarrow>
       notifications (snd (update_artefact L aid p u s)) = notifications s)"
  using update_true_notifies update_not_true_quiet create_artefact_quiet delete_artefact_quiet
  by blast

text \<open>
  On the sample state: user 1 updates \<open>demo_song\<close> and the one observer is notified
  once; a create and a delete notify nobody; user 2 is denied and nobody is notified.
\<close>

theorem update_notifications_witness:
  "fst (update_artefact demo_aesgcm 1 ''new.txt'' (User 1 ''amna'' ''user'') demo_state) = Inr True
   \<and> notifications (snd (update_artefact demo_aesgcm 1 ''new.txt'' (User 1 ''amna'' ''user'')
        demo_state)) = [(''TimestampObserver'', 1, ''2025-01-01T10:00:01'')]
   \<and> notifications (snd (create_artefact demo_aesgcm (User 1 ''amna'' ''user'') ''new.txt''
        ''New'' ''audio'' demo_state)) = []
   \<and> notifications (snd (delete_artefact 1 (User 1 ''amna'' ''user'') demo_state)) = []
   \<and> fst (update_artefact demo_aesgcm 1 ''new.txt'' (User 2 ''bilal'' ''user'') demo_state) \<noteq> Inr True
   \<and> notifications (snd (update_artefact demo_aesgcm 1 ''new.txt'' (User 2 ''bilal'' ''user'')
        demo_state)) = []"
proof -
  have quiet: "notifications demo_state = []"
    by (simp add: demo_state_def)
  have obs: "observers demo_state = [TimestampObserver]"
    by (simp add: demo_state_def)
  have ts: "clock demo_state (Suc 0) = ''2025-01-01T10:00:01''"
    by (simp add: demo_state_def)
  have none: "\<forall>ob\<in>set (observers demo_state). observer_raises ob 1 (clock demo_state 1) = None"
    by (simp add: obs TimestampObserver_def)
  have denied: "fst (update_artefact demo_aesgcm 1 ''new.txt'' (User 2 ''bilal'' ''user'') demo_state)
      \<noteq> Inr True"
    by (simp add: update_artefact_def demo_get_song demo_song_def)
  note by_owner = update_notifications [where L = demo_aesgcm and aid = 1 and p = "''new.txt''"
      and u = "User 1 ''amna'' ''user''" and s = demo_state and owner = "User 1 ''amna'' ''user''"
      and path = "''new.txt''" and name = "''New''" and atype = "''audio''"]
  note by_other = update_notifications [where L = demo_aesgcm and aid = 1 and p = "''new.txt''"
      and u = "User 2 ''bilal'' ''user''" and s = demo_state and owner = "User 1 ''amna'' ''user''"
      and path = "''new.txt''" and name = "''New''" and atype = "''audio''"]
  from by_owner demo_update_owner
  have 1: "notifications (snd (update_artefact demo_aesgcm 1 ''new.txt'' (User 1 ''amna'' ''user'')
        demo_state)) = [(''TimestampObserver'', 1, ''2025-01-01T10:00:01'')]"
    by (simp add: quiet obs ts TimestampObserver_def)
  from by_owner have 2: "notifications (snd (create_artefact demo_aesgcm (User 1 ''amna'' ''user'')
        ''new.txt'' ''New'' ''audio'' demo_state)) = []"
    by (simp add: quiet)
  from by_owner have 3: "notifications (snd (delete_artefact 1 (User 1 ''amna'' ''user'') demo_state)) = []"
    by (simp add: quiet)
  from by_other none denied
  have 4: "notifications (snd (update_artefact demo_aesgcm 1 ''new.txt'' (User 2 ''bilal'' ''user'')
        demo_state)) = []"
    by (simp add: quiet)
  from demo_update_owner 1 2 3 denied 4 show ?thesis by blast
qed


end
